theory Spec2Isabelle
  imports Main "HOL-Library.Sublist"
begin

section \<open>Python values used by \<^verbatim>\<open>real_estate_agents.py\<close>\<close>

text \<open>
  A Python \<^verbatim>\<open>str\<close> is a sequence of Unicode code points; it is modelled as a list of
  natural numbers, so that \<^verbatim>\<open>str.strip()\<close> sees the same characters as Python does.
  \<open>py\<close> turns an ASCII literal of the source into such a string.
\<close>

type_synonym str = "nat list"

definition py :: "string \<Rightarrow> str" where
  "py s = map of_char s"

text \<open>
  The characters \<^verbatim>\<open>str.strip()\<close> removes when called without argument: the code points
  for which \<^verbatim>\<open>str.isspace()\<close> holds (TAB..CR, FS..US, space, NEL, NBSP, and the Unicode
  space separators).
\<close>

definition isspace :: "nat \<Rightarrow> bool" where
  "isspace c =
     (c \<in> set [9, 10, 11, 12, 13, 28, 29, 30, 31, 32, 133, 160,
                  5760, 8232, 8233, 8239, 8287, 12288]
      \<or> (8192 \<le> c \<and> c \<le> 8202))"

definition strip :: "str \<Rightarrow> str" where
  "strip s = rev (dropWhile isspace (rev (dropWhile isspace s)))"

text \<open>The idiom \<^verbatim>\<open>x or None\<close> on a string: the empty string is falsy.\<close>

definition or_None :: "str \<Rightarrow> str option" where
  "or_None s = (if s = [] then None else Some s)"

text \<open>The exceptions that can leave the functions of the module.\<close>

datatype exn = AttributeError | ConnectionError | Timeout | HTTPError nat | OSError

section \<open>The part of BeautifulSoup the extractor calls\<close>

text \<open>
  A parsed document is a tree of tags and strings. A tag has a name, an attribute
  dictionary (the attributes the extractor reads, \<^verbatim>\<open>data-testid\<close>, \<^verbatim>\<open>name\<close>,
  \<^verbatim>\<open>content\<close> and \<^verbatim>\<open>src\<close>, are single-valued strings) and its children in document
  order. A string node is a \<^verbatim>\<open>NavigableString\<close> or an instance of one of its
  subclasses: the parser gives comments the class \<^verbatim>\<open>Comment\<close>, the body of a
  \<^verbatim>\<open>script\<close> tag the class \<^verbatim>\<open>Script\<close>, and so on. All of them are Python strings.
  The parser itself (\<^verbatim>\<open>html.parser\<close>) is a parameter: a function from the markup to the
  top-level nodes.
\<close>

datatype string_class =
    NavigableString | CData | Comment | Declaration | Doctype | ProcessingInstruction
  | Script | Stylesheet | TemplateString | RubyTextString | RubyParenthesisString

datatype node = Tag str "(str \<times> str) list" "node list" | Text string_class str

definition BeautifulSoup :: "(str \<Rightarrow> node list) \<Rightarrow> str \<Rightarrow> node" where
  "BeautifulSoup html_parser markup = Tag (py ''[document]'') [] (html_parser markup)"

text \<open>\<^verbatim>\<open>Tag.descendants\<close>: every node below a tag, in document order (pre-order).\<close>

fun descendants :: "node \<Rightarrow> node list" where
  "descendants (Tag n a cs) = concat (map (\<lambda>c. c # descendants c) cs)"
| "descendants (Text c s) = []"

text \<open>
  Truth value of a node: \<^verbatim>\<open>Tag.__bool__\<close> is always true, a string node is a
  \<^verbatim>\<open>str\<close> and is true when non-empty.
\<close>

fun truthy :: "node \<Rightarrow> bool" where
  "truthy (Tag n a cs) = True"
| "truthy (Text c s) = (s \<noteq> [])"

text \<open>\<^verbatim>\<open>a or b\<close> on the results of \<^verbatim>\<open>find\<close> (\<^verbatim>\<open>None\<close> is falsy).\<close>

definition or_node :: "node option \<Rightarrow> node option \<Rightarrow> node option" where
  "or_node a b = (case a of None \<Rightarrow> b | Some x \<Rightarrow> if truthy x then Some x else b)"

fun tag_name :: "node \<Rightarrow> str option" where
  "tag_name (Tag n a cs) = Some n"
| "tag_name (Text c s) = None"

text \<open>\<^verbatim>\<open>Tag.get(key)\<close>: the attribute's value, \<^verbatim>\<open>None\<close> when the tag has no such attribute.\<close>

fun tag_get :: "node \<Rightarrow> str \<Rightarrow> str option" where
  "tag_get (Tag n a cs) k = map_of a k"
| "tag_get (Text c s) k = None"

text \<open>
  The search criteria of \<^verbatim>\<open>find(name, attrs={...})\<close>: an optional tag name and attribute
  values that must all be equal to the tag's. String nodes never match them.
\<close>

fun matches_tag :: "str option \<Rightarrow> (str \<times> str) list \<Rightarrow> node \<Rightarrow> bool" where
  "matches_tag nm want (Tag n a cs) =
     ((case nm of None \<Rightarrow> True | Some x \<Rightarrow> n = x)
      \<and> list_all (\<lambda>(k, v). map_of a k = Some v) want)"
| "matches_tag nm want (Text c s) = False"

text \<open>
  \<^verbatim>\<open>find(string=f)\<close> looks at the string nodes only, of every class, and calls \<open>f\<close>
  on each.
\<close>

fun matches_string :: "(str \<Rightarrow> bool) \<Rightarrow> node \<Rightarrow> bool" where
  "matches_string f (Tag n a cs) = False"
| "matches_string f (Text c s) = f s"

definition find_tag :: "node \<Rightarrow> str option \<Rightarrow> (str \<times> str) list \<Rightarrow> node option" where
  "find_tag soup nm want = List.find (matches_tag nm want) (descendants soup)"

definition find_string :: "node \<Rightarrow> (str \<Rightarrow> bool) \<Rightarrow> node option" where
  "find_string soup f = List.find (matches_string f) (descendants soup)"

definition find_all :: "node \<Rightarrow> str \<Rightarrow> node list" where
  "find_all soup nm = filter (matches_tag (Some nm) []) (descendants soup)"

text \<open>
  The string classes \<^verbatim>\<open>get_text\<close> collects below a tag
  (\<^verbatim>\<open>Tag.interesting_string_types\<close>): plain strings and CDATA sections, except that the
  tags the HTML tree builder gives a string class of their own collect that class.
\<close>

definition interesting_string_types :: "str \<Rightarrow> string_class list" where
  "interesting_string_types nm =
     (if nm = py ''rt'' then [RubyTextString]
      else if nm = py ''rp'' then [RubyParenthesisString]
      else if nm = py ''style'' then [Stylesheet]
      else if nm = py ''script'' then [Script]
      else if nm = py ''template'' then [TemplateString]
      else [NavigableString, CData])"

text \<open>The strings of the given classes among a list of nodes.\<close>

fun strings_of :: "string_class list \<Rightarrow> node list \<Rightarrow> str list" where
  "strings_of types [] = []"
| "strings_of types (Tag n a cs # ns) = strings_of types ns"
| "strings_of types (Text c s # ns) =
     (if c \<in> set types then s # strings_of types ns else strings_of types ns)"

text \<open>
  \<^verbatim>\<open>get_text(strip=True)\<close>. On a tag: every descendant string of an interesting class
  is stripped, the empty ones are dropped and the rest are joined without separator.
  A string node has the method too (so \<^verbatim>\<open>hasattr(price_el, "get_text")\<close> holds for
  every node and the \<^verbatim>\<open>str(price_el).strip()\<close> branch of line 81 is not taken): it
  gives the stripped string when the node is a plain string or a CDATA section, and
  the empty string for the other classes.
\<close>

fun get_text_strip :: "node \<Rightarrow> str" where
  "get_text_strip (Tag n a cs) =
     concat (filter (\<lambda>s. s \<noteq> [])
               (map strip (strings_of (interesting_string_types n) (descendants (Tag n a cs)))))"
| "get_text_strip (Text c s) = (if c \<in> set [NavigableString, CData] then strip s else [])"

section \<open>\<^verbatim>\<open>PropertyRecord\<close>\<close>

record PropertyRecord =
  address :: "str option"
  price :: "str option"
  bedrooms :: "int option"
  bathrooms :: "int option"
  square_feet :: "int option"
  lot_size :: "str option"
  year_built :: "int option"
  property_type :: "str option"
  listing_agent :: "str option"
  days_on_market :: "int option"
  mls_number :: "str option"
  description :: "str option"
  image_urls :: "str list"
  neighborhood :: "str option"

text \<open>Lines 71-74 of \<^verbatim>\<open>from_html\<close>.\<close>

definition address_of :: "node \<Rightarrow> str option" where
  "address_of soup =
     (let address_el = or_node (find_tag soup None [(py ''data-testid'', py ''address'')])
                               (find_tag soup (Some (py ''address'')) [])
      in case address_el of
           None \<Rightarrow> None
         | Some el \<Rightarrow> if truthy el then or_None (get_text_strip el) else None)"

text \<open>
  Lines 76-81. The test \<^verbatim>\<open>"$" in s\<close> asks for the code point 36 among the characters
  of the text node. The price has no \<^verbatim>\<open>or None\<close>.
\<close>

definition price_of :: "node \<Rightarrow> str option" where
  "price_of soup =
     (let price_el = or_node (find_tag soup None [(py ''data-testid'', py ''price'')])
                             (find_string soup (\<lambda>s. 36 \<in> set s))
      in case price_el of
           None \<Rightarrow> None
         | Some el \<Rightarrow> if truthy el then Some (get_text_strip el) else None)"

text \<open>
  Lines 83-88: on a \<^verbatim>\<open>meta\<close> tag the \<^verbatim>\<open>content\<close> attribute is read and
  \<^verbatim>\<open>.strip()\<close> is called on it; when the attribute is missing, \<^verbatim>\<open>get\<close> returns
  \<^verbatim>\<open>None\<close> and the call raises \<^verbatim>\<open>AttributeError\<close>.
\<close>

definition description_of :: "node \<Rightarrow> exn + str option" where
  "description_of soup =
     (let desc_el = or_node (find_tag soup None [(py ''data-testid'', py ''home-description-text'')])
                            (find_tag soup (Some (py ''meta'')) [(py ''name'', py ''description'')])
      in case desc_el of
           None \<Rightarrow> Inr None
         | Some el \<Rightarrow>
             if truthy el then
               (if tag_name el = Some (py ''meta'') then
                  (case tag_get el (py ''content'') of
                     None \<Rightarrow> Inl AttributeError
                   | Some c \<Rightarrow> Inr (or_None (strip c)))
                else Inr (or_None (get_text_strip el)))
             else Inr None)"

text \<open>Line 95: the list comprehension over \<^verbatim>\<open>find_all("img")\<close> and the slice.\<close>

definition truthy_src :: "node \<Rightarrow> str option" where
  "truthy_src img = (case tag_get img (py ''src'') of
                       None \<Rightarrow> None
                     | Some s \<Rightarrow> if s = [] then None else Some s)"

definition image_urls_of :: "node \<Rightarrow> str list" where
  "image_urls_of soup = take 5 (List.map_filter truthy_src (find_all soup (py ''img'')))"

text \<open>
  The defaults of the dataclass: every field \<^verbatim>\<open>None\<close>, the image list empty.
  \<open>from_html\<close> calls the constructor with four keyword arguments; the other fields keep
  their defaults.
\<close>

definition PropertyRecord_default :: PropertyRecord where
  "PropertyRecord_default =
     \<lparr>address = None, price = None, bedrooms = None, bathrooms = None,
      square_feet = None, lot_size = None, year_built = None,
      property_type = None, listing_agent = None, days_on_market = None,
      mls_number = None, description = None, image_urls = [], neighborhood = None\<rparr>"

definition from_html :: "(str \<Rightarrow> node list) \<Rightarrow> str \<Rightarrow> exn + PropertyRecord" where
  "from_html html_parser html_text =
     (let soup = BeautifulSoup html_parser html_text;
          address_v = address_of soup;
          price_v = price_of soup
      in case description_of soup of
           Inl e \<Rightarrow> Inl e
         | Inr description_v \<Rightarrow>
             Inr (PropertyRecord_default
                    \<lparr>address := address_v, price := price_v, description := description_v,
                     image_urls := image_urls_of soup\<rparr>))"

section \<open>\<^verbatim>\<open>SimpleExtractionAgent\<close>\<close>

record SimpleExtractionAgent =
  api_token :: "str option"
  proxy_zone :: "str option"
  web_unblock_zone :: "str option"
  llm_api_key :: "str option"

text \<open>
  The outside world of one run: the files on disk, what was printed, and the HTTP
  requests sent so far (URL, headers, timeout). What the network answers is a
  parameter \<open>requests_get\<close>: an exception of \<^verbatim>\<open>requests.get\<close> or a response.
\<close>

text \<open>A response; \<open>text_body\<close> is its \<^verbatim>\<open>text\<close> attribute.\<close>

record response =
  status_code :: nat
  text_body :: str

record request =
  req_url :: str
  req_headers :: "(str \<times> str) list"
  req_timeout :: nat

record world =
  files :: "str \<rightharpoonup> str"
  stdout :: "str list"
  sent :: "request list"

text \<open>
  \<^verbatim>\<open>Response.raise_for_status()\<close> of the requests library raises \<^verbatim>\<open>HTTPError\<close> for
  the client and server error statuses, 400 to 599, and returns otherwise.
\<close>

definition raise_for_status :: "response \<Rightarrow> exn + unit" where
  "raise_for_status r =
     (if 400 \<le> status_code r \<and> status_code r < 600 then Inl (HTTPError (status_code r))
      else Inr ())"

definition user_agent :: str where
  "user_agent = py (''Mozilla/5.0 (Macintosh; Intel Mac OS X 10_15_7) ''
                    @ ''AppleWebKit/537.36 (KHTML, like Gecko) Chrome/126.0 Safari/537.36'')"

definition fetch_listing_html ::
  "SimpleExtractionAgent \<Rightarrow> (str \<Rightarrow> exn + response) \<Rightarrow> str \<Rightarrow> world \<Rightarrow> (exn + str) \<times> world" where
  "fetch_listing_html self requests_get listing_url w =
     (let headers = [(py ''User-Agent'', user_agent)];
          w' = w\<lparr>sent := sent w @ [\<lparr>req_url = listing_url, req_headers = headers,
                                     req_timeout = 30\<rparr>]\<rparr>
      in case requests_get listing_url of
           Inl e \<Rightarrow> (Inl e, w')
         | Inr resp \<Rightarrow>
             (case raise_for_status resp of
                Inl e \<Rightarrow> (Inl e, w')
              | Inr u \<Rightarrow> (Inr (text_body resp), w')))"

definition validate_schema :: "PropertyRecord \<Rightarrow> PropertyRecord" where
  "validate_schema r = r"

text \<open>\<^verbatim>\<open>SimpleExtractionAgent.extract\<close>: fetch, parse, validate.\<close>

definition agent_extract ::
  "SimpleExtractionAgent \<Rightarrow> (str \<Rightarrow> node list) \<Rightarrow> (str \<Rightarrow> exn + response) \<Rightarrow> str \<Rightarrow> world
     \<Rightarrow> (exn + PropertyRecord) \<times> world" where
  "agent_extract self html_parser requests_get listing_url w =
     (case fetch_listing_html self requests_get listing_url w of
        (Inl e, w') \<Rightarrow> (Inl e, w')
      | (Inr html_text, w') \<Rightarrow>
          (case from_html html_parser html_text of
             Inl e \<Rightarrow> (Inl e, w')
           | Inr parsed \<Rightarrow> (Inr (validate_schema parsed), w')))"

section \<open>The command line entry point\<close>

text \<open>The parsed arguments: \<^verbatim>\<open>--url\<close> and \<^verbatim>\<open>--output\<close> (here \<open>output_path\<close>).\<close>

record args =
  url :: str
  output_path :: str

record metadata =
  extracted_at :: str
  source_url :: str
  schema_version :: str

record payload =
  metadata :: metadata
  data :: PropertyRecord

text \<open>
  What \<open>main\<close> takes from its surroundings: the process environment, the HTML parser,
  the network, the clock (\<^verbatim>\<open>datetime.utcnow().isoformat()\<close>), the JSON encoder, and
  whether \<^verbatim>\<open>open(path, "w")\<close> fails on a path (a missing directory, no permission).
\<close>

record environment =
  getenv :: "str \<Rightarrow> str option"
  html_parser :: "str \<Rightarrow> node list"
  requests_get :: "str \<Rightarrow> exn + response"
  utcnow_isoformat :: str
  json_dumps :: "payload \<Rightarrow> str"
  open_fails :: "str \<Rightarrow> bool"

definition main :: "environment \<Rightarrow> args \<Rightarrow> world \<Rightarrow> (exn + int) \<times> world" where
  "main env args w =
     (let agent = \<lparr>api_token = getenv env (py ''API_TOKEN''),
                   proxy_zone = getenv env (py ''PROXY_ZONE''),
                   web_unblock_zone = getenv env (py ''WEB_UNBLOCK_ZONE''),
                   llm_api_key = getenv env (py ''LLM_API_KEY'')\<rparr>
      in case agent_extract agent (html_parser env) (requests_get env) (url args) w of
           (Inl e, w1) \<Rightarrow> (Inl e, w1)
         | (Inr r, w1) \<Rightarrow>
             (let payload = \<lparr>metadata = \<lparr>extracted_at = utcnow_isoformat env @ py ''Z'',
                                          source_url = url args,
                                          schema_version = py ''1.0''\<rparr>,
                             data = r\<rparr>
              in if open_fails env (output_path args) then (Inl OSError, w1)
                 else
                   (let w2 = w1\<lparr>files := (files w1)(output_path args \<mapsto> json_dumps env payload)\<rparr>;
                        w3 = w2\<lparr>stdout := stdout w2 @ [json_dumps env payload]\<rparr>
                    in (Inr 0, w3))))"

text \<open>
  \<^verbatim>\<open>raise SystemExit(main())\<close>: the exit code is what \<open>main\<close> returns; an exception
  that leaves \<open>main\<close> uncaught ends the interpreter with exit code 1.
\<close>

definition script :: "environment \<Rightarrow> args \<Rightarrow> world \<Rightarrow> int \<times> world" where
  "script env args w =
     (case main env args w of
        (Inl e, w') \<Rightarrow> (1, w')
      | (Inr rc, w') \<Rightarrow> (rc, w'))"

section \<open>Notions of the specification and concrete runs\<close>

text \<open>
  The count the specification compares the image list with, in its words: the image
  elements that have a source attribute.
\<close>

definition img_with_src_count :: "node \<Rightarrow> nat" where
  "img_with_src_count soup =
     length (filter (\<lambda>img. tag_get img (py ''src'') \<noteq> None) (find_all soup (py ''img'')))"

text \<open>The image elements whose source attribute is present and not the empty string.\<close>

definition img_with_nonempty_src_count :: "node \<Rightarrow> nat" where
  "img_with_nonempty_src_count soup =
     length (filter (\<lambda>img. case tag_get img (py ''src'') of None \<Rightarrow> False | Some s \<Rightarrow> s \<noteq> [])
                    (find_all soup (py ''img'')))"

text \<open>
  The elements the description is taken from, in the words of the specification: an
  element that carries a marker (its \<^verbatim>\<open>data-testid\<close> attribute has the given value), and
  a \<^verbatim>\<open>meta\<close> tag with a given name.
\<close>

fun has_marker :: "str \<Rightarrow> node \<Rightarrow> bool" where
  "has_marker v (Tag n a cs) = (map_of a (py ''data-testid'') = Some v)"
| "has_marker v (Text c s) = False"

fun is_meta_named :: "str \<Rightarrow> node \<Rightarrow> bool" where
  "is_meta_named v (Tag n a cs) = (n = py ''meta'' \<and> map_of a (py ''name'') = Some v)"
| "is_meta_named v (Text c s) = False"

text \<open>
  The text of an element, by recursion over the tree: the strings of the given classes
  below it, each stripped, the empty ones left out, in document order.
\<close>

fun own_text :: "string_class list \<Rightarrow> node \<Rightarrow> str list" where
  "own_text types (Tag n a cs) = concat (map (own_text types) cs)"
| "own_text types (Text c s) = (if c \<in> set types \<and> strip s \<noteq> [] then [strip s] else [])"

text \<open>
  A fetch failure in the words of the specification: a connection error, a timeout, or
  a status outside 200..299.
\<close>

definition fetch_fails_spec :: "exn + response \<Rightarrow> bool" where
  "fetch_fails_spec answer =
     (case answer of
        Inl e \<Rightarrow> True
      | Inr resp \<Rightarrow> \<not> (200 \<le> status_code resp \<and> status_code resp < 300))"

text \<open>
  For the examples: a parser result given as nodes (what \<^verbatim>\<open>html.parser\<close> builds for
  the markup of the example), a network that gives one answer, an empty process
  environment, a file system on which every \<^verbatim>\<open>open\<close> succeeds, and the world before
  the run.
\<close>

definition parsed_as :: "node list \<Rightarrow> str \<Rightarrow> node list" where
  "parsed_as nodes markup = nodes"

definition answering :: "exn + response \<Rightarrow> str \<Rightarrow> exn + response" where
  "answering answer listing_url = answer"

definition no_variables :: "str \<Rightarrow> str option" where
  "no_variables var = None"

definition never_fails :: "str \<Rightarrow> bool" where
  "never_fails path = False"

definition source_url_only :: "payload \<Rightarrow> str" where
  "source_url_only p = source_url (metadata p)"

definition example_env :: "node list \<Rightarrow> exn + response \<Rightarrow> environment" where
  "example_env nodes answer =
     \<lparr>getenv = no_variables, html_parser = parsed_as nodes, requests_get = answering answer,
      utcnow_isoformat = py ''2024-01-01T00:00:00'', json_dumps = source_url_only,
      open_fails = never_fails\<rparr>"

definition example_args :: args where
  "example_args = \<lparr>url = py ''https://example.com/listing'', output_path = py ''output.json''\<rparr>"

definition world0 :: world where
  "world0 = \<lparr>files = Map.empty, stdout = [], sent = []\<rparr>"

section \<open>Facts about the library model\<close>

text \<open>The equations that evaluate the model on a concrete document or run.\<close>

lemmas soup_defs = BeautifulSoup_def parsed_as_def py_def find_tag_def find_string_def
  find_all_def or_node_def or_None_def strip_def isspace_def interesting_string_types_def

lemmas from_html_defs = from_html_def address_of_def price_of_def description_of_def
  image_urls_of_def truthy_src_def PropertyRecord_default_def

lemmas run_defs = script_def main_def agent_extract_def fetch_listing_html_def
  raise_for_status_def validate_schema_def example_env_def example_args_def world0_def
  answering_def no_variables_def source_url_only_def never_fails_def

text \<open>The first element of a list that passes a test, and a list in which none does.\<close>

lemma find_first:
  "xs = pre @ x # post \<Longrightarrow> P x \<Longrightarrow> list_all (\<lambda>y. \<not> P y) pre \<Longrightarrow> List.find P xs = Some x"
  by (induction pre arbitrary: xs) auto

lemma find_none: "list_all (\<lambda>y. \<not> P y) xs \<Longrightarrow> List.find P xs = None"
  by (induction xs) auto

text \<open>
  The strings collected from the list of descendants of an element, stripped and with
  the empty ones left out, are the text of the element as the recursion over the tree
  gives it.
\<close>

lemma strings_of_append: "strings_of t (xs @ ys) = strings_of t xs @ strings_of t ys"
  by (induction t xs rule: strings_of.induct) simp_all

lemma stripped_concat:
  "filter (\<lambda>s. s \<noteq> []) (map strip (strings_of t (concat xss)))
     = concat (map (\<lambda>xs. filter (\<lambda>s. s \<noteq> []) (map strip (strings_of t xs))) xss)"
  by (induction xss) (simp_all add: strings_of_append)

lemma own_text_descendants:
  "own_text t x = filter (\<lambda>s. s \<noteq> []) (map strip (strings_of t (x # descendants x)))"
proof (induction x)
  case (Tag n a cs)
  have "own_text t (Tag n a cs) = concat (map (own_text t) cs)" by simp
  also have "\<dots> = concat (map (\<lambda>c. filter (\<lambda>s. s \<noteq> [])
                                   (map strip (strings_of t (c # descendants c)))) cs)"
    using Tag.IH by (simp cong: map_cong)
  also have "\<dots> = filter (\<lambda>s. s \<noteq> [])
                     (map strip (strings_of t (concat (map (\<lambda>c. c # descendants c) cs))))"
    by (simp add: stripped_concat comp_def)
  finally show ?case by simp
next
  case (Text c s)
  show ?case by simp
qed

section \<open>Facts about \<open>from_html\<close>\<close>

text \<open>
  When \<open>from_html\<close> returns, the record is the default record with the four extracted
  fields set.
\<close>

lemma from_html_Inr:
  assumes "from_html hp ht = Inr r"
  shows "\<exists>d. description_of (BeautifulSoup hp ht) = Inr d
           \<and> r = PropertyRecord_default
                   \<lparr>address := address_of (BeautifulSoup hp ht),
                    price := price_of (BeautifulSoup hp ht),
                    description := d,
                    image_urls := image_urls_of (BeautifulSoup hp ht)\<rparr>"
  using assms by (auto simp: from_html_def Let_def split: sum.splits)

lemma from_html_image_urls:
  "from_html hp ht = Inr r \<Longrightarrow> image_urls r = image_urls_of (BeautifulSoup hp ht)"
  by (drule from_html_Inr) auto

text \<open>
  The image list keeps the \<^verbatim>\<open>src\<close> values that are present and not empty.
\<close>

lemma length_map_filter_truthy_src:
  "length (List.map_filter truthy_src imgs)
     = length (filter (\<lambda>img. case tag_get img (py ''src'') of None \<Rightarrow> False | Some s \<Rightarrow> s \<noteq> []) imgs)"
  by (induction imgs) (auto simp: truthy_src_def split: option.splits)

lemma map_Some_map_filter_truthy_src:
  "map Some (List.map_filter truthy_src imgs)
     = filter (\<lambda>v. case v of None \<Rightarrow> False | Some s \<Rightarrow> s \<noteq> [])
              (map (\<lambda>img. tag_get img (py ''src'')) imgs)"
  by (induction imgs) (auto simp: truthy_src_def split: option.splits)

lemma map_filter_truthy_src:
  "List.map_filter truthy_src imgs
     = filter (\<lambda>s. s \<noteq> []) (List.map_filter (\<lambda>img. tag_get img (py ''src'')) imgs)"
  by (induction imgs) (auto simp: truthy_src_def split: option.splits)

lemma truthy_src_nonempty: "[] \<notin> set (List.map_filter truthy_src imgs)"
  by (simp add: map_filter_truthy_src)

section \<open>The extractor\<close>

text \<open>
  Claim C1 says that \<open>from_html\<close> never raises, also when a matched element lacks
  the expected attribute. It does raise: on a document whose description element is a
  \<^verbatim>\<open>meta\<close> tag without \<^verbatim>\<open>content\<close> attribute, \<^verbatim>\<open>desc_el.get("content")\<close> is
  \<^verbatim>\<open>None\<close> and \<^verbatim>\<open>.strip()\<close> on it raises \<^verbatim>\<open>AttributeError\<close>. The image list of
  line 95 guards the same lookup (\<^verbatim>\<open>if img.get("src")\<close>); the description does not.
\<close>

theorem from_html_raises_on_meta_without_content:
  \<open>from_html (parsed_as [Tag (py ''meta'') [(py ''name'', py ''description'')] []])
             (py ''<meta name="description">'')
   = Inl AttributeError\<close>
  by (simp add: soup_defs from_html_defs)

text \<open>
  Claim C2, as stated, compares the length of the image list with the number of image
  elements that have a source attribute. An image element whose source attribute is
  the empty string has the attribute and is still left out (\<^verbatim>\<open>if img.get("src")\<close>):
  for \<^verbatim>\<open><img src="">\<close> the count is 1 and the list is empty.
\<close>

theorem image_urls_count_counterexample:
  \<open>img_with_src_count (BeautifulSoup (parsed_as [Tag (py ''img'') [(py ''src'', [])] []])
                                       (py ''<img src="">'')) \<le> 5
   \<and> from_html (parsed_as [Tag (py ''img'') [(py ''src'', [])] []]) (py ''<img src="">'')
       = Inr PropertyRecord_default
   \<and> length (image_urls PropertyRecord_default)
       \<noteq> img_with_src_count (BeautifulSoup (parsed_as [Tag (py ''img'') [(py ''src'', [])] []])
                                            (py ''<img src="">''))\<close>
  by (simp add: soup_defs from_html_defs img_with_src_count_def)

text \<open>
  Claim C2, amended: whenever \<open>from_html\<close> returns, the image list has at most 5
  entries; when the document has at most 5 image elements with a non-empty source
  attribute, its length is their number; and its entries are the first of the non-empty
  source values of the image elements, in document order.
\<close>

theorem image_urls_capped_in_document_order:
  assumes "from_html parse html_text = Inr r"
    and "soup = BeautifulSoup parse html_text"
  shows "length (image_urls r) \<le> 5
       \<and> (img_with_nonempty_src_count soup \<le> 5
            \<longrightarrow> length (image_urls r) = img_with_nonempty_src_count soup)
       \<and> prefix (map Some (image_urls r))
            (filter (\<lambda>v. case v of None \<Rightarrow> False | Some s \<Rightarrow> s \<noteq> [])
                    (map (\<lambda>img. tag_get img (py ''src'')) (find_all soup (py ''img''))))"
proof -
  let ?imgs = "find_all soup (py ''img'')"
  have u: "image_urls r = take 5 (List.map_filter truthy_src ?imgs)"
    using assms by (simp add: from_html_image_urls image_urls_of_def)
  have 1: "length (image_urls r) \<le> 5"
    by (simp add: u)
  have 2: "length (image_urls r) = img_with_nonempty_src_count soup"
    if "img_with_nonempty_src_count soup \<le> 5"
    using that by (simp add: u img_with_nonempty_src_count_def length_map_filter_truthy_src)
  have "map Some (image_urls r) = take 5 (map Some (List.map_filter truthy_src ?imgs))"
    by (simp add: u take_map)
  then have e: "map Some (image_urls r)
            = take 5 (filter (\<lambda>v. case v of None \<Rightarrow> False | Some s \<Rightarrow> s \<noteq> [])
                        (map (\<lambda>img. tag_get img (py ''src'')) ?imgs))"
    by (simp only: map_Some_map_filter_truthy_src)
  have 3: "prefix (map Some (image_urls r))
            (filter (\<lambda>v. case v of None \<Rightarrow> False | Some s \<Rightarrow> s \<noteq> [])
                    (map (\<lambda>img. tag_get img (py ''src'')) ?imgs))"
    unfolding e by (rule take_is_prefix)
  from 1 2 3 show ?thesis by blast
qed

theorem image_urls_capped_in_document_order_witness:
  \<open>from_html (parsed_as [Tag (py ''img'') [(py ''src'', py ''a.jpg'')] [],
                         Tag (py ''img'') [(py ''alt'', py ''no source'')] [],
                         Tag (py ''img'') [(py ''src'', py ''b.jpg'')] []])
             (py ''<img src="a.jpg"><img alt="no source"><img src="b.jpg">'')
     = Inr (PropertyRecord_default\<lparr>image_urls := [py ''a.jpg'', py ''b.jpg'']\<rparr>)
   \<and> img_with_nonempty_src_count
        (BeautifulSoup (parsed_as [Tag (py ''img'') [(py ''src'', py ''a.jpg'')] [],
                                   Tag (py ''img'') [(py ''alt'', py ''no source'')] [],
                                   Tag (py ''img'') [(py ''src'', py ''b.jpg'')] []])
                       (py ''<img src="a.jpg"><img alt="no source"><img src="b.jpg">'')) = 2
   \<and> length (image_urls (PropertyRecord_default\<lparr>image_urls := [py ''a.jpg'', py ''b.jpg'']\<rparr>))
       = img_with_nonempty_src_count
        (BeautifulSoup (parsed_as [Tag (py ''img'') [(py ''src'', py ''a.jpg'')] [],
                                   Tag (py ''img'') [(py ''alt'', py ''no source'')] [],
                                   Tag (py ''img'') [(py ''src'', py ''b.jpg'')] []])
                       (py ''<img src="a.jpg"><img alt="no source"><img src="b.jpg">''))\<close>
proof -
  let ?parse = "parsed_as [Tag (py ''img'') [(py ''src'', py ''a.jpg'')] [],
                          Tag (py ''img'') [(py ''alt'', py ''no source'')] [],
                          Tag (py ''img'') [(py ''src'', py ''b.jpg'')] []]"
  let ?html = \<open>py ''<img src="a.jpg"><img alt="no source"><img src="b.jpg">''\<close>
  have h: "from_html ?parse ?html
             = Inr (PropertyRecord_default\<lparr>image_urls := [py ''a.jpg'', py ''b.jpg'']\<rparr>)"
    by (simp add: soup_defs from_html_defs)
  have c: "img_with_nonempty_src_count (BeautifulSoup ?parse ?html) = 2"
    by (simp add: soup_defs img_with_nonempty_src_count_def)
  from image_urls_capped_in_document_order [OF h refl] c h show ?thesis by simp
qed

text \<open>
  Claim C4 says that a text field whose matched text is empty or only white space is
  absent, never the empty string. Address and description end in \<^verbatim>\<open>or None\<close>; the
  price does not: a price element holding only white space gives the price \<^verbatim>\<open>""\<close>.
\<close>

theorem from_html_empty_price_string:
  \<open>from_html (parsed_as [Tag (py ''div'') [(py ''data-testid'', py ''price'')]
                           [Text NavigableString (py '' '')]])
             (py ''<div data-testid="price"> </div>'')
   = Inr (PropertyRecord_default\<lparr>price := Some []\<rparr>)\<close>
  by (simp add: soup_defs from_html_defs)

text \<open>
  Claim C5 says that, without a price marker, the first text node containing a dollar
  sign is used and its text is returned as it is. The search of line 77 returns the
  first string of any class, and \<^verbatim>\<open>get_text\<close> on a string that is not plain text (a
  script body, a comment) is empty: for a script that mentions \<^verbatim>\<open>$\<close> before the
  paragraph \<^verbatim>\<open>Price $5\<close> the price is \<^verbatim>\<open>""\<close>, neither text. The other branch of
  line 81, \<^verbatim>\<open>str(price_el).strip()\<close>, would return the text of the string.
\<close>

theorem from_html_price_of_script_string:
  \<open>from_html (parsed_as [Tag (py ''script'') [] [Text Script (py ''var x = $(1);'')],
                         Tag (py ''p'') [] [Text NavigableString (py ''Price $5'')]])
             (py ''<script>var x = $(1);</script><p>Price $5</p>'')
   = Inr (PropertyRecord_default\<lparr>price := Some []\<rparr>)\<close>
  by (simp add: soup_defs from_html_defs)

text \<open>
  Claim C6: the description is first-match-wins. When some element carries the
  description marker, the first such element in document order is used: the
  description is its text (its strings, each stripped, joined), or its \<^verbatim>\<open>content\<close>
  attribute, stripped, when the element is itself a \<^verbatim>\<open>meta\<close> tag. Otherwise the
  \<^verbatim>\<open>content\<close> attribute of the first \<^verbatim>\<open>meta\<close> tag named \<^verbatim>\<open>description\<close> is used,
  stripped. Otherwise the description is absent. In each case \<open>from_html\<close> returns,
  and an empty result is \<^verbatim>\<open>None\<close>. (A \<^verbatim>\<open>meta\<close> tag without \<^verbatim>\<open>content\<close> attribute
  is the input of claim C1.)
\<close>

theorem description_first_match_wins:
  assumes "soup = BeautifulSoup parse html_text"
  shows
    "(\<forall>pre n a cs post.
        descendants soup = pre @ Tag n a cs # post
        \<and> has_marker (py ''home-description-text'') (Tag n a cs)
        \<and> list_all (\<lambda>x. \<not> has_marker (py ''home-description-text'') x) pre
        \<and> n \<noteq> py ''meta''
        \<longrightarrow> (\<exists>r. from_html parse html_text = Inr r
                 \<and> description r
                     = (if concat (own_text (interesting_string_types n) (Tag n a cs)) = [] then None
                        else Some (concat (own_text (interesting_string_types n) (Tag n a cs))))))
   \<and> (\<forall>pre n a cs post c.
        descendants soup = pre @ Tag n a cs # post
        \<and> has_marker (py ''home-description-text'') (Tag n a cs)
        \<and> list_all (\<lambda>x. \<not> has_marker (py ''home-description-text'') x) pre
        \<and> n = py ''meta'' \<and> map_of a (py ''content'') = Some c
        \<longrightarrow> (\<exists>r. from_html parse html_text = Inr r
                 \<and> description r = (if strip c = [] then None else Some (strip c))))
   \<and> (\<forall>pre n a cs post c.
        list_all (\<lambda>x. \<not> has_marker (py ''home-description-text'') x) (descendants soup)
        \<and> descendants soup = pre @ Tag n a cs # post
        \<and> is_meta_named (py ''description'') (Tag n a cs)
        \<and> list_all (\<lambda>x. \<not> is_meta_named (py ''description'') x) pre
        \<and> map_of a (py ''content'') = Some c
        \<longrightarrow> (\<exists>r. from_html parse html_text = Inr r
                 \<and> description r = (if strip c = [] then None else Some (strip c))))
   \<and> (list_all (\<lambda>x. \<not> has_marker (py ''home-description-text'') x) (descendants soup)
        \<and> list_all (\<lambda>x. \<not> is_meta_named (py ''description'') x) (descendants soup)
        \<longrightarrow> (\<exists>r. from_html parse html_text = Inr r \<and> description r = None))"
proof -
  let ?M = "py ''home-description-text''"
  let ?D = "py ''description''"
  let ?marker = "find_tag soup None [(py ''data-testid'', ?M)]"
  let ?meta = "find_tag soup (Some (py ''meta'')) [(py ''name'', ?D)]"
  have mm: "matches_tag None [(py ''data-testid'', ?M)] = has_marker ?M"
  proof
    fix x show "matches_tag None [(py ''data-testid'', ?M)] x = has_marker ?M x"
      by (cases x) simp_all
  qed
  have md: "matches_tag (Some (py ''meta'')) [(py ''name'', ?D)] = is_meta_named ?D"
  proof
    fix x show "matches_tag (Some (py ''meta'')) [(py ''name'', ?D)] x = is_meta_named ?D x"
      by (cases x) simp_all
  qed
  have fm: "?marker = List.find (has_marker ?M) (descendants soup)"
    by (simp only: find_tag_def mm)
  have fd: "?meta = List.find (is_meta_named ?D) (descendants soup)"
    by (simp only: find_tag_def md)
  have ret: "\<exists>r. from_html parse html_text = Inr r \<and> description r = d"
    if "description_of soup = Inr d" for d
    using that assms by (simp add: from_html_def Let_def)
  have 1: "\<exists>r. from_html parse html_text = Inr r
             \<and> description r
                 = (if concat (own_text (interesting_string_types n) (Tag n a cs)) = [] then None
                    else Some (concat (own_text (interesting_string_types n) (Tag n a cs))))"
    if d: "descendants soup = pre @ Tag n a cs # post"
      and m: "has_marker ?M (Tag n a cs)"
      and f: "list_all (\<lambda>x. \<not> has_marker ?M x) pre"
      and n: "n \<noteq> py ''meta''" for pre n a cs post
  proof -
    have mk: "?marker = Some (Tag n a cs)"
      unfolding fm using d m f by (rule find_first)
    have t: "get_text_strip (Tag n a cs)
               = concat (own_text (interesting_string_types n) (Tag n a cs))"
      by (simp only: get_text_strip.simps own_text_descendants strings_of.simps)
    have "description_of soup = Inr (or_None (get_text_strip (Tag n a cs)))"
      using mk n by (simp add: description_of_def or_node_def)
    then have "description_of soup
                 = Inr (or_None (concat (own_text (interesting_string_types n) (Tag n a cs))))"
      by (simp only: t)
    from ret [OF this] show ?thesis by (simp only: or_None_def)
  qed
  have 2: "\<exists>r. from_html parse html_text = Inr r
             \<and> description r = (if strip c = [] then None else Some (strip c))"
    if d: "descendants soup = pre @ Tag n a cs # post"
      and m: "has_marker ?M (Tag n a cs)"
      and f: "list_all (\<lambda>x. \<not> has_marker ?M x) pre"
      and n: "n = py ''meta''" and c: "map_of a (py ''content'') = Some c" for pre n a cs post c
  proof -
    have mk: "?marker = Some (Tag n a cs)"
      unfolding fm using d m f by (rule find_first)
    have "description_of soup = Inr (or_None (strip c))"
      using mk n c by (simp add: description_of_def or_node_def)
    from ret [OF this] show ?thesis by (simp only: or_None_def)
  qed
  have 3: "\<exists>r. from_html parse html_text = Inr r
             \<and> description r = (if strip c = [] then None else Some (strip c))"
    if no: "list_all (\<lambda>x. \<not> has_marker ?M x) (descendants soup)"
      and d: "descendants soup = pre @ Tag n a cs # post"
      and m: "is_meta_named ?D (Tag n a cs)"
      and f: "list_all (\<lambda>x. \<not> is_meta_named ?D x) pre"
      and c: "map_of a (py ''content'') = Some c" for pre n a cs post c
  proof -
    have a: "?marker = None"
      unfolding fm using no by (rule find_none)
    have b: "?meta = Some (Tag n a cs)"
      unfolding fd using d m f by (rule find_first)
    have n: "n = py ''meta''"
      using m by simp
    have "description_of soup = Inr (or_None (strip c))"
      using a b c n by (simp add: description_of_def or_node_def)
    from ret [OF this] show ?thesis by (simp only: or_None_def)
  qed
  have 4: "\<exists>r. from_html parse html_text = Inr r \<and> description r = None"
    if no: "list_all (\<lambda>x. \<not> has_marker ?M x) (descendants soup)"
      and nd: "list_all (\<lambda>x. \<not> is_meta_named ?D x) (descendants soup)"
  proof -
    have a: "?marker = None"
      unfolding fm using no by (rule find_none)
    have b: "?meta = None"
      unfolding fd using nd by (rule find_none)
    have "description_of soup = Inr None"
      using a b by (simp add: description_of_def or_node_def)
    from ret [OF this] show ?thesis .
  qed
  from 1 2 3 4 show ?thesis by blast
qed

text \<open>
  Two documents. In the first a \<^verbatim>\<open>meta\<close> description comes before two elements
  with the marker; the first marker element wins, and its text leaves the comment out.
  The second
  is the document of the specification, only
  \<^verbatim>\<open><meta name="description" content="Cozy 3BR home">\<close>: the description is
  \<^verbatim>\<open>Cozy 3BR home\<close> and there is no address.
\<close>

theorem description_first_match_wins_witness:
  \<open>(\<exists>r. from_html
            (parsed_as
               [Tag (py ''meta'') [(py ''name'', py ''description''), (py ''content'', py ''From meta'')] [],
                Tag (py ''div'') [(py ''data-testid'', py ''home-description-text'')]
                  [Text NavigableString (py '' Cozy ''),
                   Tag (py ''b'') [] [Text NavigableString (py ''3BR'')],
                   Text Comment (py '' draft ''),
                   Text NavigableString (py '' home '')],
                Tag (py ''p'') [(py ''data-testid'', py ''home-description-text'')]
                  [Text NavigableString (py ''Second'')]])
            (py (''<meta name="description" content="From meta">''
                 @ ''<div data-testid="home-description-text"> Cozy <b>3BR</b><!-- draft --> home </div>''
                 @ ''<p data-testid="home-description-text">Second</p>''))
          = Inr r
        \<and> description r = Some (py ''Cozy3BRhome''))
   \<and> from_html
         (parsed_as
            [Tag (py ''meta'') [(py ''name'', py ''description''), (py ''content'', py ''From meta'')] [],
             Tag (py ''div'') [(py ''data-testid'', py ''home-description-text'')]
               [Text NavigableString (py '' Cozy ''),
                Tag (py ''b'') [] [Text NavigableString (py ''3BR'')],
                Text Comment (py '' draft ''),
                Text NavigableString (py '' home '')],
             Tag (py ''p'') [(py ''data-testid'', py ''home-description-text'')]
               [Text NavigableString (py ''Second'')]])
         (py (''<meta name="description" content="From meta">''
              @ ''<div data-testid="home-description-text"> Cozy <b>3BR</b><!-- draft --> home </div>''
              @ ''<p data-testid="home-description-text">Second</p>''))
       = Inr (PropertyRecord_default\<lparr>description := Some (py ''Cozy3BRhome'')\<rparr>)
   \<and> (\<exists>r. from_html
            (parsed_as [Tag (py ''meta'') [(py ''name'', py ''description''),
                                          (py ''content'', py ''Cozy 3BR home'')] []])
            (py ''<meta name="description" content="Cozy 3BR home">'')
          = Inr r
        \<and> description r = Some (py ''Cozy 3BR home''))
   \<and> from_html
         (parsed_as [Tag (py ''meta'') [(py ''name'', py ''description''),
                                       (py ''content'', py ''Cozy 3BR home'')] []])
         (py ''<meta name="description" content="Cozy 3BR home">'')
       = Inr (PropertyRecord_default\<lparr>description := Some (py ''Cozy 3BR home'')\<rparr>)
   \<and> address (PropertyRecord_default\<lparr>description := Some (py ''Cozy 3BR home'')\<rparr>) = None\<close>
proof -
  let ?meta1 = "Tag (py ''meta'') [(py ''name'', py ''description''), (py ''content'', py ''From meta'')] []"
  let ?kids = "[Text NavigableString (py '' Cozy ''),
                Tag (py ''b'') [] [Text NavigableString (py ''3BR'')],
                Text Comment (py '' draft ''),
                Text NavigableString (py '' home '')]"
  let ?attrs = "[(py ''data-testid'', py ''home-description-text'')]"
  let ?second = "Tag (py ''p'') ?attrs [Text NavigableString (py ''Second'')]"
  let ?post = "[Text NavigableString (py '' Cozy ''),
                Tag (py ''b'') [] [Text NavigableString (py ''3BR'')],
                Text NavigableString (py ''3BR''),
                Text Comment (py '' draft ''),
                Text NavigableString (py '' home ''),
                ?second,
                Text NavigableString (py ''Second'')]"
  let ?parse1 = "parsed_as [?meta1, Tag (py ''div'') ?attrs ?kids, ?second]"
  let ?html1 = \<open>py (''<meta name="description" content="From meta">''
                 @ ''<div data-testid="home-description-text"> Cozy <b>3BR</b><!-- draft --> home </div>''
                 @ ''<p data-testid="home-description-text">Second</p>'')\<close>
  let ?cattrs = "[(py ''name'', py ''description''), (py ''content'', py ''Cozy 3BR home'')]"
  let ?parse2 = "parsed_as [Tag (py ''meta'') ?cattrs []]"
  let ?html2 = \<open>py ''<meta name="description" content="Cozy 3BR home">''\<close>
  have h1: "descendants (BeautifulSoup ?parse1 ?html1) = [?meta1] @ Tag (py ''div'') ?attrs ?kids # ?post
            \<and> has_marker (py ''home-description-text'') (Tag (py ''div'') ?attrs ?kids)
            \<and> list_all (\<lambda>x. \<not> has_marker (py ''home-description-text'') x) [?meta1]
            \<and> py ''div'' \<noteq> py ''meta''"
    by (simp add: soup_defs)
  have t1: "concat (own_text (interesting_string_types (py ''div'')) (Tag (py ''div'') ?attrs ?kids))
              = py ''Cozy3BRhome''"
    by (simp add: soup_defs)
  have e1: "py ''Cozy3BRhome'' \<noteq> []"
    by (simp add: py_def)
  from description_first_match_wins [OF refl, of ?parse1 ?html1] h1
  have "\<exists>r. from_html ?parse1 ?html1 = Inr r
           \<and> description r
               = (if concat (own_text (interesting_string_types (py ''div''))
                               (Tag (py ''div'') ?attrs ?kids)) = [] then None
                  else Some (concat (own_text (interesting_string_types (py ''div''))
                                       (Tag (py ''div'') ?attrs ?kids))))"
    by blast
  then have 1: "\<exists>r. from_html ?parse1 ?html1 = Inr r \<and> description r = Some (py ''Cozy3BRhome'')"
    by (simp only: t1 e1 if_False)
  have 2: "from_html ?parse1 ?html1
             = Inr (PropertyRecord_default\<lparr>description := Some (py ''Cozy3BRhome'')\<rparr>)"
    by (simp add: soup_defs from_html_defs)
  have h2: "list_all (\<lambda>x. \<not> has_marker (py ''home-description-text'') x)
              (descendants (BeautifulSoup ?parse2 ?html2))
            \<and> descendants (BeautifulSoup ?parse2 ?html2) = [] @ Tag (py ''meta'') ?cattrs [] # []
            \<and> is_meta_named (py ''description'') (Tag (py ''meta'') ?cattrs [])
            \<and> list_all (\<lambda>x. \<not> is_meta_named (py ''description'') x) []
            \<and> map_of ?cattrs (py ''content'') = Some (py ''Cozy 3BR home'')"
    by (simp add: soup_defs)
  have t2: "strip (py ''Cozy 3BR home'') = py ''Cozy 3BR home''"
    by (simp add: soup_defs)
  have e2: "py ''Cozy 3BR home'' \<noteq> []"
    by (simp add: py_def)
  from description_first_match_wins [OF refl, of ?parse2 ?html2] h2
  have "\<exists>r. from_html ?parse2 ?html2 = Inr r
           \<and> description r = (if strip (py ''Cozy 3BR home'') = [] then None
                              else Some (strip (py ''Cozy 3BR home'')))"
    by blast
  then have 3: "\<exists>r. from_html ?parse2 ?html2 = Inr r \<and> description r = Some (py ''Cozy 3BR home'')"
    by (simp only: t2 e2 if_False)
  have 4: "from_html ?parse2 ?html2
             = Inr (PropertyRecord_default\<lparr>description := Some (py ''Cozy 3BR home'')\<rparr>)"
    by (simp add: soup_defs from_html_defs)
  have 5: "address (PropertyRecord_default\<lparr>description := Some (py ''Cozy 3BR home'')\<rparr>) = None"
    by (simp add: PropertyRecord_default_def)
  from 1 2 3 4 5 show ?thesis by blast
qed

text \<open>
  Claim C7: in every record \<open>from_html\<close> returns, the fields bedrooms, bathrooms,
  square_feet, lot_size, year_built, property_type, listing_agent, days_on_market,
  mls_number and neighborhood are \<^verbatim>\<open>None\<close>.
\<close>

theorem reserved_fields_absent:
  assumes "from_html parse html_text = Inr r"
  shows "bedrooms r = None \<and> bathrooms r = None \<and> square_feet r = None \<and> lot_size r = None
       \<and> year_built r = None \<and> property_type r = None \<and> listing_agent r = None
       \<and> days_on_market r = None \<and> mls_number r = None \<and> neighborhood r = None"
proof -
  from from_html_Inr [OF assms] obtain d where
    "r = PropertyRecord_default
           \<lparr>address := address_of (BeautifulSoup parse html_text),
            price := price_of (BeautifulSoup parse html_text),
            description := d,
            image_urls := image_urls_of (BeautifulSoup parse html_text)\<rparr>"
    by blast
  then show ?thesis by (simp add: PropertyRecord_default_def)
qed

theorem reserved_fields_absent_witness:
  \<open>from_html (parsed_as [Tag (py ''address'') [] [Text NavigableString (py '' 123 Main St '')],
                         Tag (py ''img'') [(py ''src'', py ''a.jpg'')] []])
             (py ''<address> 123 Main St </address><img src="a.jpg">'')
     = Inr (PropertyRecord_default\<lparr>address := Some (py ''123 Main St''),
                                     image_urls := [py ''a.jpg'']\<rparr>)
   \<and> bedrooms (PropertyRecord_default\<lparr>address := Some (py ''123 Main St''),
                                     image_urls := [py ''a.jpg'']\<rparr>) = None
   \<and> neighborhood (PropertyRecord_default\<lparr>address := Some (py ''123 Main St''),
                                     image_urls := [py ''a.jpg'']\<rparr>) = None\<close>
proof -
  let ?parse = "parsed_as [Tag (py ''address'') [] [Text NavigableString (py '' 123 Main St '')],
                          Tag (py ''img'') [(py ''src'', py ''a.jpg'')] []]"
  let ?html = \<open>py ''<address> 123 Main St </address><img src="a.jpg">''\<close>
  have h: "from_html ?parse ?html
             = Inr (PropertyRecord_default\<lparr>address := Some (py ''123 Main St''),
                                             image_urls := [py ''a.jpg'']\<rparr>)"
    by (simp add: soup_defs from_html_defs)
  from reserved_fields_absent [OF h] h show ?thesis by simp
qed

text \<open>
  Claim C10: the image list never holds the empty string: it is made of the source
  attributes that are present, with the empty ones dropped, cut after five.
\<close>

theorem image_urls_skip_empty_src:
  assumes "from_html parse html_text = Inr r"
    and "soup = BeautifulSoup parse html_text"
  shows "[] \<notin> set (image_urls r)
       \<and> image_urls r
           = take 5 (filter (\<lambda>s. s \<noteq> [])
                       (List.map_filter (\<lambda>img. tag_get img (py ''src'')) (find_all soup (py ''img''))))"
proof -
  let ?imgs = "find_all soup (py ''img'')"
  have u: "image_urls r = take 5 (List.map_filter truthy_src ?imgs)"
    using assms by (simp add: from_html_image_urls image_urls_of_def)
  have "set (image_urls r) \<subseteq> set (List.map_filter truthy_src ?imgs)"
    unfolding u by (rule set_take_subset)
  then have "[] \<notin> set (image_urls r)"
    using truthy_src_nonempty [of ?imgs] by blast
  then show ?thesis
    using u by (simp add: map_filter_truthy_src)
qed

theorem image_urls_skip_empty_src_witness:
  \<open>from_html (parsed_as [Tag (py ''img'') [(py ''src'', [])] [],
                         Tag (py ''img'') [(py ''src'', py ''a.jpg'')] [],
                         Tag (py ''img'') [] []])
             (py ''<img src=""><img src="a.jpg"><img>'')
     = Inr (PropertyRecord_default\<lparr>image_urls := [py ''a.jpg'']\<rparr>)
   \<and> [] \<notin> set (image_urls (PropertyRecord_default\<lparr>image_urls := [py ''a.jpg'']\<rparr>))\<close>
proof -
  let ?parse = "parsed_as [Tag (py ''img'') [(py ''src'', [])] [],
                          Tag (py ''img'') [(py ''src'', py ''a.jpg'')] [],
                          Tag (py ''img'') [] []]"
  let ?html = \<open>py ''<img src=""><img src="a.jpg"><img>''\<close>
  have h: "from_html ?parse ?html = Inr (PropertyRecord_default\<lparr>image_urls := [py ''a.jpg'']\<rparr>)"
    by (simp add: soup_defs from_html_defs)
  from image_urls_skip_empty_src [OF h refl] h show ?thesis by blast
qed

section \<open>The agent and the command line\<close>

text \<open>
  Claim C3, as stated, counts every status outside 200..299 as a fetch failure that
  ends the run with a non-zero exit code and no output file.
  \<^verbatim>\<open>raise_for_status\<close> raises for the statuses 400 to 599 only: a response with
  status 304 is parsed like any other, the output file is written and the exit code
  is 0.
\<close>

theorem fetch_failure_status_counterexample:
  "fetch_fails_spec (requests_get (example_env [] (Inr \<lparr>status_code = 304, text_body = []\<rparr>))
                                  (url example_args))
   \<and> fst (script (example_env [] (Inr \<lparr>status_code = 304, text_body = []\<rparr>)) example_args world0)
       = 0
   \<and> files (snd (script (example_env [] (Inr \<lparr>status_code = 304, text_body = []\<rparr>))
                         example_args world0)) (output_path example_args)
       = Some (py ''https://example.com/listing'')"
  by (simp add: soup_defs from_html_defs run_defs fetch_fails_spec_def)

text \<open>
  Claim C3, amended: when \<^verbatim>\<open>requests.get\<close> raises (connection error, timeout) or the
  response has a status from 400 to 599 (such as 404), the exception leaves \<open>main\<close>
  unchanged, the process exits with code 1, no file is written and nothing is
  printed, and exactly one request was sent (no retry).
\<close>

theorem fetch_failure_aborts_run:
  assumes "case requests_get env (url a) of
             Inl e' \<Rightarrow> e = e'
           | Inr resp \<Rightarrow> 400 \<le> status_code resp \<and> status_code resp < 600
                          \<and> e = HTTPError (status_code resp)"
  shows "fst (main env a w) = Inl e
       \<and> fst (script env a w) = 1
       \<and> files (snd (script env a w)) = files w
       \<and> stdout (snd (script env a w)) = stdout w
       \<and> sent (snd (script env a w))
           = sent w @ [\<lparr>req_url = url a, req_headers = [(py ''User-Agent'', user_agent)],
                        req_timeout = 30\<rparr>]"
proof (cases "requests_get env (url a)")
  case (Inl e')
  with assms show ?thesis
    by (simp add: script_def main_def agent_extract_def fetch_listing_html_def)
next
  case (Inr resp)
  with assms show ?thesis
    by (simp add: script_def main_def agent_extract_def fetch_listing_html_def
        raise_for_status_def)
qed

theorem fetch_failure_aborts_run_witness:
  "requests_get (example_env [] (Inr \<lparr>status_code = 404, text_body = []\<rparr>)) (url example_args)
     = Inr \<lparr>status_code = 404, text_body = []\<rparr>
   \<and> fst (main (example_env [] (Inr \<lparr>status_code = 404, text_body = []\<rparr>)) example_args world0)
       = Inl (HTTPError 404)
   \<and> fst (script (example_env [] (Inr \<lparr>status_code = 404, text_body = []\<rparr>)) example_args world0)
       = 1
   \<and> files (snd (script (example_env [] (Inr \<lparr>status_code = 404, text_body = []\<rparr>))
                         example_args world0)) = Map.empty
   \<and> length (sent (snd (script (example_env [] (Inr \<lparr>status_code = 404, text_body = []\<rparr>))
                                example_args world0))) = 1"
proof -
  let ?env = "example_env [] (Inr \<lparr>status_code = 404, text_body = []\<rparr>)"
  have g: "requests_get ?env (url example_args) = Inr \<lparr>status_code = 404, text_body = []\<rparr>"
    by (simp add: example_env_def answering_def)
  have "case requests_get ?env (url example_args) of
          Inl e' \<Rightarrow> HTTPError 404 = e'
        | Inr resp \<Rightarrow> 400 \<le> status_code resp \<and> status_code resp < 600
                       \<and> HTTPError 404 = HTTPError (status_code resp)"
    by (simp add: g)
  from fetch_failure_aborts_run [OF this, of world0] g show ?thesis
    by (simp add: world0_def)
qed

text \<open>
  Claim C8: \<open>validate_schema\<close> is the identity, so what \<open>agent_extract\<close> returns
  for a page that was fetched is what \<open>from_html\<close> returns for its text.
\<close>

theorem validate_schema_identity:
  "validate_schema r = r
   \<and> (\<forall>html_text w'. fetch_listing_html self rget listing_url w = (Inr html_text, w')
         \<longrightarrow> agent_extract self parse rget listing_url w = (from_html parse html_text, w'))"
  by (simp add: validate_schema_def agent_extract_def split: sum.splits)

theorem validate_schema_identity_witness:
  \<open>validate_schema PropertyRecord_default = PropertyRecord_default
   \<and> fetch_listing_html
        \<lparr>api_token = None, proxy_zone = None, web_unblock_zone = None, llm_api_key = None\<rparr>
        (answering (Inr \<lparr>status_code = 200, text_body = py ''<img src="a.jpg">''\<rparr>))
        (py ''https://example.com/listing'') world0
       = (Inr (py ''<img src="a.jpg">''),
          world0\<lparr>sent := [\<lparr>req_url = py ''https://example.com/listing'',
                             req_headers = [(py ''User-Agent'', user_agent)],
                             req_timeout = 30\<rparr>]\<rparr>)
   \<and> agent_extract
        \<lparr>api_token = None, proxy_zone = None, web_unblock_zone = None, llm_api_key = None\<rparr>
        (parsed_as [Tag (py ''img'') [(py ''src'', py ''a.jpg'')] []])
        (answering (Inr \<lparr>status_code = 200, text_body = py ''<img src="a.jpg">''\<rparr>))
        (py ''https://example.com/listing'') world0
       = (from_html (parsed_as [Tag (py ''img'') [(py ''src'', py ''a.jpg'')] []])
                    (py ''<img src="a.jpg">''),
          world0\<lparr>sent := [\<lparr>req_url = py ''https://example.com/listing'',
                             req_headers = [(py ''User-Agent'', user_agent)],
                             req_timeout = 30\<rparr>]\<rparr>)\<close>
proof -
  let ?self = "\<lparr>api_token = None, proxy_zone = None, web_unblock_zone = None, llm_api_key = None\<rparr>"
  let ?rget = \<open>answering (Inr \<lparr>status_code = 200, text_body = py ''<img src="a.jpg">''\<rparr>)\<close>
  let ?w = "world0\<lparr>sent := [\<lparr>req_url = py ''https://example.com/listing'',
                             req_headers = [(py ''User-Agent'', user_agent)],
                             req_timeout = 30\<rparr>]\<rparr>"
  have f: \<open>fetch_listing_html ?self ?rget (py ''https://example.com/listing'') world0
             = (Inr (py ''<img src="a.jpg">''), ?w)\<close>
    by (simp add: fetch_listing_html_def raise_for_status_def answering_def world0_def)
  from validate_schema_identity
         [of PropertyRecord_default ?self ?rget "py ''https://example.com/listing''" world0
             "parsed_as [Tag (py ''img'') [(py ''src'', py ''a.jpg'')] []]"]
       f
  show ?thesis by blast
qed

text \<open>
  Claim C9: the configuration is not consumed. Two agents with any configuration
  values return the same from \<open>agent_extract\<close>, and two runs of \<open>main\<close> whose
  environment variables differ, over the same network answer, end with the same
  result and the same world.
\<close>

theorem configuration_not_consumed:
  "agent_extract self1 parse rget listing_url w = agent_extract self2 parse rget listing_url w
   \<and> main (env\<lparr>getenv := getenv1\<rparr>) a w = main (env\<lparr>getenv := getenv2\<rparr>) a w"
proof -
  have 1: "agent_extract self1 parse rget listing_url w = agent_extract self2 parse rget listing_url w"
    by (simp add: agent_extract_def fetch_listing_html_def)
  have 2: "main (env\<lparr>getenv := getenv1\<rparr>) a w = main (env\<lparr>getenv := getenv2\<rparr>) a w"
    by (simp add: main_def agent_extract_def fetch_listing_html_def Let_def
             cong: prod.case_cong sum.case_cong if_cong)
  from 1 2 show ?thesis by blast
qed

end
